theory Spec2Isabelle
  imports Complex_Main "HOL-Library.AList"
begin

section \<open>Python values and the object store\<close>

text \<open>
  The module \<^verbatim>\<open>parade/server/dash/chart/__init__.py\<close> defines one class,
  \<^verbatim>\<open>CustomChart\<close>. Its class body binds two mutable objects
  (\<^verbatim>\<open>annotations = []\<close> and \<^verbatim>\<open>_axis_range = {}\<close>), its methods build nested
  dictionaries and patch them in place. Which object a name refers to matters, so
  lists, dictionaries and the objects of other classes (the charting library's
  \<^verbatim>\<open>Title\<close> among them) live in a store and values refer to them by address.
\<close>

type_synonym addr = nat

text \<open>Dictionary keys and list indices: strings and integers.\<close>

datatype key = KStr string | KInt int

text \<open>
  A Python value: \<^verbatim>\<open>None\<close>, a boolean, an integer, a float, a string, or a
  reference to an object of the store: a list, a dictionary, or an object of any
  other class (the charting library's \<^verbatim>\<open>Title\<close> and \<^verbatim>\<open>Legend\<close>, a caller's own
  class). Floats are only carried around by this module (no arithmetic is done on
  them), so a float is represented by the real number it denotes.
\<close>

datatype pyval =
    PNone
  | PBool bool
  | PInt int
  | PFloat real
  | PStr string
  | PList addr
  | PDict addr
  | PObj addr

text \<open>A dictionary keeps insertion order; assigning to a present key keeps its place.\<close>

type_synonym dict = "(key \<times> pyval) list"

text \<open>
  The store. An object of another class is its class name and its properties.
  \<open>fresh\<close> is the next address; every object is created there.
\<close>

record heap =
  lists :: "addr \<Rightarrow> pyval list"
  dicts :: "addr \<Rightarrow> dict"
  objects :: "addr \<Rightarrow> string \<times> dict"
  fresh :: addr

datatype py_error =
    RuntimeError string
  | NotImplementedError string
  | KeyError key
  | TypeError
  | IndexError
  | AttributeError
  | ValueError string

text \<open>
  Object creation: a dict display \<^verbatim>\<open>{...}\<close>, a list display, a constructor call
  such as \<^verbatim>\<open>Title(...)\<close>.
\<close>

definition alloc_dict :: "dict \<Rightarrow> heap \<Rightarrow> addr \<times> heap" where
  "alloc_dict d s = (fresh s, s\<lparr>dicts := (dicts s)(fresh s := d), fresh := Suc (fresh s)\<rparr>)"

definition alloc_list :: "pyval list \<Rightarrow> heap \<Rightarrow> addr \<times> heap" where
  "alloc_list xs s = (fresh s, s\<lparr>lists := (lists s)(fresh s := xs), fresh := Suc (fresh s)\<rparr>)"

definition alloc_obj :: "string \<times> dict \<Rightarrow> heap \<Rightarrow> addr \<times> heap" where
  "alloc_obj d s = (fresh s, s\<lparr>objects := (objects s)(fresh s := d), fresh := Suc (fresh s)\<rparr>)"

text \<open>\<^verbatim>\<open>d[k]\<close> and \<^verbatim>\<open>k in d\<close> on a dictionary.\<close>

definition dict_getitem :: "dict \<Rightarrow> key \<Rightarrow> py_error + pyval" where
  "dict_getitem d k = (case map_of d k of None \<Rightarrow> Inl (KeyError k) | Some v \<Rightarrow> Inr v)"

definition dict_contains :: "dict \<Rightarrow> key \<Rightarrow> bool" where
  "dict_contains d k = (map_of d k \<noteq> None)"

text \<open>\<^verbatim>\<open>xs[k] = v\<close> on a list: an integer index, negative ones counted from the end.\<close>

definition list_setitem :: "pyval list \<Rightarrow> key \<Rightarrow> pyval \<Rightarrow> py_error + pyval list" where
  "list_setitem xs k v =
     (case k of
        KStr _ \<Rightarrow> Inl TypeError
      | KInt i \<Rightarrow>
          (let n = int (length xs); j = (if i < 0 then i + n else i)
           in if 0 \<le> j \<and> j < n then Inr (xs[nat j := v]) else Inl IndexError))"

text \<open>
  \<^verbatim>\<open>p[k] = v\<close> for any value \<^verbatim>\<open>p\<close>. Item assignment on an object of another
  class is that class's: \<open>obj_setitem\<close> takes the class name and the object's
  properties and gives the properties after the assignment, or the error raised (for
  a class without item assignment, \<^verbatim>\<open>TypeError\<close>). It changes the object it is applied
  to and nothing else, as item assignment on a list, a dictionary or an object of the
  charting library does. \<^verbatim>\<open>None\<close>, booleans, numbers and strings have no item
  assignment. A failed assignment leaves the store as it was.
\<close>

type_synonym obj_setitem = "string \<Rightarrow> dict \<Rightarrow> key \<Rightarrow> pyval \<Rightarrow> py_error + dict"

definition setitem ::
  "obj_setitem \<Rightarrow> pyval \<Rightarrow> key \<Rightarrow> pyval \<Rightarrow> heap \<Rightarrow> (py_error + unit) \<times> heap" where
  "setitem obj_setitem p k v s =
     (case p of
        PDict a \<Rightarrow> (Inr (), s\<lparr>dicts := (dicts s)(a := AList.update k v (dicts s a))\<rparr>)
      | PList a \<Rightarrow>
          (case list_setitem (lists s a) k v of
             Inl e \<Rightarrow> (Inl e, s)
           | Inr xs \<Rightarrow> (Inr (), s\<lparr>lists := (lists s)(a := xs)\<rparr>))
      | PObj a \<Rightarrow>
          (case obj_setitem (fst (objects s a)) (snd (objects s a)) k v of
             Inl e \<Rightarrow> (Inl e, s)
           | Inr d \<Rightarrow> (Inr (), s\<lparr>objects := (objects s)(a := (fst (objects s a), d))\<rparr>))
      | _ \<Rightarrow> (Inl TypeError, s))"

text \<open>\<^verbatim>\<open>p.append(x)\<close>: only lists have the method.\<close>

definition append_item :: "pyval \<Rightarrow> pyval \<Rightarrow> heap \<Rightarrow> (py_error + unit) \<times> heap" where
  "append_item p x s =
     (case p of
        PList a \<Rightarrow> (Inr (), s\<lparr>lists := (lists s)(a := lists s a @ [x])\<rparr>)
      | _ \<Rightarrow> (Inl AttributeError, s))"

text \<open>What a reader of a value sees one level down: the object a reference stands for.\<close>

datatype pyview = Atom pyval | ListOf "pyval list" | DictOf dict | ObjOf "string \<times> dict"

definition view :: "heap \<Rightarrow> pyval \<Rightarrow> pyview" where
  "view s v =
     (case v of
        PList a \<Rightarrow> ListOf (lists s a)
      | PDict a \<Rightarrow> DictOf (dicts s a)
      | PObj a \<Rightarrow> ObjOf (objects s a)
      | _ \<Rightarrow> Atom v)"


section \<open>The class \<^verbatim>\<open>CustomChart\<close>\<close>

subsection \<open>Class attributes\<close>

text \<open>
  The class body runs once, when the module is imported: it creates one list for
  \<^verbatim>\<open>annotations\<close> and one dictionary for \<^verbatim>\<open>_axis_range\<close>. \<open>module_heap\<close> is the
  store after that; the two class attributes are the addresses of these objects.
\<close>

definition cls_annotations :: pyval where
  "cls_annotations = PList 0"

definition cls_axis_range :: addr where
  "cls_axis_range = 1"

definition module_heap :: heap where
  "module_heap =
     \<lparr>lists = (\<lambda>_. []), dicts = (\<lambda>_. []), objects = (\<lambda>_. ([], [])), fresh = 2\<rparr>"

text \<open>The schema \<^verbatim>\<open>_axis_range_schema\<close>, as the class body writes it.\<close>

datatype py_type = Integer | Float | String | ListT

record field_rule =
  rule_items :: "py_type list list"
  rule_required :: bool
  rule_type :: py_type

type_synonym schema = "(key \<times> field_rule) list"

definition axis_range_schema :: schema where
  "axis_range_schema =
     [(KStr ''x'',
        \<lparr>rule_items = [[Integer, Float, String], [Integer, Float, String]],
         rule_required = False, rule_type = ListT\<rparr>),
      (KStr ''y'',
        \<lparr>rule_items = [[Integer, Float], [Integer, Float]],
         rule_required = False, rule_type = ListT\<rparr>)]"

subsection \<open>Instances\<close>

text \<open>
  An instance's own attributes. \<^verbatim>\<open>__init__\<close> binds \<^verbatim>\<open>title\<close>, \<^verbatim>\<open>labels\<close> and
  \<^verbatim>\<open>layout_overrides\<close>; \<^verbatim>\<open>annotations\<close> and \<^verbatim>\<open>_axis_range\<close> are bound on the
  instance only once something assigns them (\<open>None\<close> before that), and a read of an
  attribute the instance does not bind falls back to the class attribute.
  The types are the documented ones: the title and the two labels are strings,
  \<^verbatim>\<open>labels\<close> and \<^verbatim>\<open>axis_range\<close> are dictionaries, \<^verbatim>\<open>layout_overrides\<close> is a
  sequence of triples of a parent key, a sub-key or \<^verbatim>\<open>None\<close>, and any value; the
  sequence itself is not changed by this module, its values may be objects of the
  store.
\<close>

type_synonym override = "key \<times> key option \<times> pyval"

record chart =
  title :: string
  labels :: addr
  layout_overrides :: "override list"
  self_annotations :: "pyval option"
  self_axis_range :: "addr option"

definition annotations :: "chart \<Rightarrow> pyval" where
  "annotations c = (case self_annotations c of Some v \<Rightarrow> v | None \<Rightarrow> cls_annotations)"

text \<open>The \<^verbatim>\<open>axis_range\<close> property, read: \<^verbatim>\<open>return self._axis_range\<close>.\<close>

definition axis_range :: "chart \<Rightarrow> addr" where
  "axis_range c = (case self_axis_range c of Some a \<Rightarrow> a | None \<Rightarrow> cls_axis_range)"

text \<open>
  The \<^verbatim>\<open>axis_range\<close> property, assigned. \<open>validate\<close> is the validation collaborator
  (\<^verbatim>\<open>..utils.validate\<close>), which reads the document and returns its errors;
  \<open>str_errors\<close> is how the f-string renders them.
\<close>

definition axis_range_setter ::
  "(heap \<Rightarrow> addr \<Rightarrow> schema \<Rightarrow> 'e list) \<Rightarrow> ('e list \<Rightarrow> string) \<Rightarrow> chart \<Rightarrow> addr \<Rightarrow> heap
     \<Rightarrow> (py_error + unit) \<times> chart \<times> heap" where
  "axis_range_setter validate str_errors c new_range s =
     (let errors = validate s new_range axis_range_schema
      in if errors \<noteq> []
         then (Inl (RuntimeError (''Validation of self.axis_range failed: '' @ str_errors errors)),
               c, s)
         else (Inr (), c\<lparr>self_axis_range := Some new_range\<rparr>, s))"

text \<open>\<^verbatim>\<open>initialize_mutables\<close> of the base class: \<^verbatim>\<open>pass\<close>.\<close>

definition initialize_mutables :: "chart \<Rightarrow> heap \<Rightarrow> chart \<times> heap" where
  "initialize_mutables c s = (c, s)"

text \<open>
  \<^verbatim>\<open>__init__\<close>; \<open>init_hook\<close> is the class's \<^verbatim>\<open>initialize_mutables\<close> (a subclass may
  override it).
\<close>

definition init ::
  "(chart \<Rightarrow> heap \<Rightarrow> chart \<times> heap) \<Rightarrow> string \<Rightarrow> string \<Rightarrow> string \<Rightarrow> override list \<Rightarrow> heap
     \<Rightarrow> chart \<times> heap" where
  "init init_hook title_arg xlabel ylabel overrides s =
     (let (l, s1) = alloc_dict [(KStr ''x'', PStr xlabel), (KStr ''y'', PStr ylabel)] s
      in init_hook
           \<lparr>title = title_arg, labels = l, layout_overrides = overrides,
            self_annotations = None, self_axis_range = None\<rparr> s1)"

text \<open>\<^verbatim>\<open>create_traces\<close> of the base class: it raises, whatever it is given.\<close>

definition create_traces ::
  "chart \<Rightarrow> pyval \<Rightarrow> (string \<times> pyval) list \<Rightarrow> heap \<Rightarrow> (py_error + pyval) \<times> chart \<times> heap" where
  "create_traces c df_raw kwargs_data s =
     (Inl (NotImplementedError ''create_traces must be implemented by child class''), c, s)"


subsection \<open>Building the layout\<close>

text \<open>\<^verbatim>\<open>layout[k1][k2] = v\<close> for a dictionary \<^verbatim>\<open>layout\<close>.\<close>

definition setitem2 ::
  "obj_setitem \<Rightarrow> addr \<Rightarrow> key \<Rightarrow> key \<Rightarrow> pyval \<Rightarrow> heap \<Rightarrow> (py_error + unit) \<times> heap" where
  "setitem2 os layout k1 k2 v s =
     (case dict_getitem (dicts s layout) k1 of
        Inl e \<Rightarrow> (Inl e, s)
      | Inr p \<Rightarrow> setitem os p k2 v s)"

text \<open>
  The loop of \<^verbatim>\<open>create_layout\<close> over \<^verbatim>\<open>['x', 'y']\<close>: the axis gets its range
  when \<^verbatim>\<open>axis_range\<close> has the key, \<^verbatim>\<open>autorange\<close> otherwise.
\<close>

fun apply_axis_range ::
  "obj_setitem \<Rightarrow> chart \<Rightarrow> string list \<Rightarrow> addr \<Rightarrow> heap \<Rightarrow> (py_error + unit) \<times> heap" where
  "apply_axis_range os c [] layout s = (Inr (), s)"
| "apply_axis_range os c (axis # rest) layout s =
     (let axis_name = axis @ ''axis'' in
      if dict_contains (dicts s (axis_range c)) (KStr axis)
      then (case dict_getitem (dicts s (axis_range c)) (KStr axis) of
              Inl e \<Rightarrow> (Inl e, s)
            | Inr r \<Rightarrow>
                (case setitem2 os layout (KStr axis_name) (KStr ''range'') r s of
                   (Inl e, s') \<Rightarrow> (Inl e, s')
                 | (Inr _, s') \<Rightarrow> apply_axis_range os c rest layout s'))
      else (case setitem2 os layout (KStr axis_name) (KStr ''autorange'') (PBool True) s of
              (Inl e, s') \<Rightarrow> (Inl e, s')
            | (Inr _, s') \<Rightarrow> apply_axis_range os c rest layout s'))"

text \<open>
  \<^verbatim>\<open>create_layout\<close>. The dict display is evaluated entry by entry: the \<^verbatim>\<open>Title\<close>
  object is created, then the dictionaries of the two axes (each after its label is
  read), the legend's and the layout's. The result is the address of the layout.
\<close>

definition create_layout :: "obj_setitem \<Rightarrow> chart \<Rightarrow> heap \<Rightarrow> (py_error + addr) \<times> heap" where
  "create_layout os c s =
     (let ann = annotations c;
          (t, s1) = alloc_obj (''Title'', [(KStr ''text'', PStr (title c))]) s
      in case dict_getitem (dicts s1 (labels c)) (KStr ''x'') of
           Inl e \<Rightarrow> (Inl e, s1)
         | Inr xlabel \<Rightarrow>
             (let (xaxis, s2) =
                    alloc_dict [(KStr ''automargin'', PBool True), (KStr ''title'', xlabel)] s1
              in case dict_getitem (dicts s2 (labels c)) (KStr ''y'') of
                   Inl e \<Rightarrow> (Inl e, s2)
                 | Inr ylabel \<Rightarrow>
                     (let (yaxis, s3) =
                            alloc_dict [(KStr ''automargin'', PBool True), (KStr ''title'', ylabel),
                                        (KStr ''zeroline'', PBool True)] s2;
                          (legend, s4) =
                            alloc_dict [(KStr ''orientation'', PStr ''h''),
                                        (KStr ''y'', PFloat (- 0.25))] s3;
                          (layout, s5) =
                            alloc_dict [(KStr ''annotations'', ann),
                                        (KStr ''title'', PObj t),
                                        (KStr ''xaxis'', PDict xaxis),
                                        (KStr ''yaxis'', PDict yaxis),
                                        (KStr ''legend'', PDict legend),
                                        (KStr ''hovermode'', PStr ''closest'')] s4
                      in case apply_axis_range os c [''x'', ''y''] layout s5 of
                           (Inl e, s6) \<Rightarrow> (Inl e, s6)
                         | (Inr _, s6) \<Rightarrow> (Inr layout, s6))))"

text \<open>
  \<^verbatim>\<open>apply_custom_layout\<close>: the loop over the override triples, in their order. An
  error ends it; what earlier triples wrote stays written.
\<close>

fun apply_overrides ::
  "obj_setitem \<Rightarrow> override list \<Rightarrow> addr \<Rightarrow> heap \<Rightarrow> (py_error + unit) \<times> heap" where
  "apply_overrides os [] layout s = (Inr (), s)"
| "apply_overrides os ((parent_key, sub_key, v) # rest) layout s =
     (case sub_key of
        Some k \<Rightarrow>
          (case setitem2 os layout parent_key k v s of
             (Inl e, s') \<Rightarrow> (Inl e, s')
           | (Inr _, s') \<Rightarrow> apply_overrides os rest layout s')
      | None \<Rightarrow>
          (case setitem os (PDict layout) parent_key v s of
             (Inl e, s') \<Rightarrow> (Inl e, s')
           | (Inr _, s') \<Rightarrow> apply_overrides os rest layout s'))"

definition apply_custom_layout ::
  "obj_setitem \<Rightarrow> chart \<Rightarrow> addr \<Rightarrow> heap \<Rightarrow> (py_error + addr) \<times> heap" where
  "apply_custom_layout os c layout s =
     (case apply_overrides os (layout_overrides c) layout s of
        (Inl e, s') \<Rightarrow> (Inl e, s')
      | (Inr _, s') \<Rightarrow> (Inr layout, s'))"

subsection \<open>The figure\<close>

text \<open>
  The dictionary \<^verbatim>\<open>create_figure\<close> returns has the two keys \<^verbatim>\<open>data\<close> and
  \<^verbatim>\<open>layout\<close>. The layout object is the charting library's: \<open>go_Layout\<close> stands for
  its constructor \<^verbatim>\<open>go.Layout\<close>, which reads the dictionary it is given and returns
  the object or raises. \<open>traces\<close> is the \<^verbatim>\<open>create_traces\<close> of the instance's class;
  a subclass's may change the instance and the store. The value of \<^verbatim>\<open>data\<close> is
  computed first.
\<close>

record 'l figure =
  fig_data :: pyval
  fig_layout :: 'l

type_synonym traces_hook =
  "chart \<Rightarrow> pyval \<Rightarrow> (string \<times> pyval) list \<Rightarrow> heap \<Rightarrow> (py_error + pyval) \<times> chart \<times> heap"

definition create_figure ::
  "obj_setitem \<Rightarrow> (heap \<Rightarrow> addr \<Rightarrow> py_error + 'l) \<Rightarrow> traces_hook
     \<Rightarrow> chart \<Rightarrow> pyval \<Rightarrow> (string \<times> pyval) list \<Rightarrow> heap
     \<Rightarrow> (py_error + 'l figure) \<times> chart \<times> heap" where
  "create_figure os go_Layout traces c df_raw kwargs_data s =
     (case traces c df_raw kwargs_data s of
        (Inl e, c1, s1) \<Rightarrow> (Inl e, c1, s1)
      | (Inr tr, c1, s1) \<Rightarrow>
          (case create_layout os c1 s1 of
             (Inl e, s2) \<Rightarrow> (Inl e, c1, s2)
           | (Inr layout, s2) \<Rightarrow>
               (case apply_custom_layout os c1 layout s2 of
                  (Inl e, s3) \<Rightarrow> (Inl e, c1, s3)
                | (Inr patched, s3) \<Rightarrow>
                    (case go_Layout s3 patched of
                       Inl e \<Rightarrow> (Inl e, c1, s3)
                     | Inr l \<Rightarrow> (Inr \<lparr>fig_data = tr, fig_layout = l\<rparr>, c1, s3)))))"


section \<open>The validation collaborator\<close>

text \<open>
  Modelled from the spec: \<^verbatim>\<open>validate\<close> of \<^verbatim>\<open>parade.server.dash.utils\<close>, which this
  module imports and whose source is not part of it. The spec: it takes a value and
  a declarative schema (key to type, arity, required) and returns a possibly empty
  collection of error descriptions; for \<^verbatim>\<open>axis_range\<close> each key must be one the
  schema names, each present value must be a list with as many elements as the schema
  gives item rules, each element of one of the types its item rule lists, and a key
  that is not required may be absent.
\<close>

datatype verror =
    UnknownField key
  | RequiredField key
  | BadType key
  | WrongLength key nat nat
  | BadItemType key nat

fun has_type :: "py_type \<Rightarrow> pyval \<Rightarrow> bool" where
  "has_type Integer (PInt _) = True"
| "has_type Float (PFloat _) = True"
| "has_type String (PStr _) = True"
| "has_type ListT (PList _) = True"
| "has_type _ _ = False"

fun check_items :: "key \<Rightarrow> nat \<Rightarrow> py_type list list \<Rightarrow> pyval list \<Rightarrow> verror list" where
  "check_items k i (os # rules) (x # xs) =
     (if list_ex (\<lambda>t. has_type t x) os then [] else [BadItemType k i]) @
     check_items k (Suc i) rules xs"
| "check_items k i _ _ = []"

definition check_field :: "heap \<Rightarrow> dict \<Rightarrow> key \<times> field_rule \<Rightarrow> verror list" where
  "check_field s document kr =
     (case map_of document (fst kr) of
        None \<Rightarrow> (if rule_required (snd kr) then [RequiredField (fst kr)] else [])
      | Some v \<Rightarrow>
          (if \<not> has_type (rule_type (snd kr)) v then [BadType (fst kr)]
           else (case v of
                   PList a \<Rightarrow>
                     (if length (lists s a) \<noteq> length (rule_items (snd kr))
                      then [WrongLength (fst kr) (length (rule_items (snd kr))) (length (lists s a))]
                      else check_items (fst kr) 0 (rule_items (snd kr)) (lists s a))
                 | _ \<Rightarrow> [])))"

definition validate :: "heap \<Rightarrow> addr \<Rightarrow> schema \<Rightarrow> verror list" where
  "validate s document sch =
     map UnknownField (filter (\<lambda>k. map_of sch k = None) (map fst (dicts s document))) @
     concat (map (check_field s (dicts s document)) sch)"


text \<open>
  Which documents are valid. \<open>spec_valid_axis_range\<close> follows the spec's words: keys
  \<^verbatim>\<open>"x"\<close> and \<^verbatim>\<open>"y"\<close> only, each present one a list of exactly two bounds, each bound
  a number or a string. \<open>schema_valid_axis_range\<close> is what the class's schema says: the
  bounds of \<^verbatim>\<open>"y"\<close> are numbers.
\<close>

definition is_number :: "pyval \<Rightarrow> bool" where
  "is_number v = (case v of PInt _ \<Rightarrow> True | PFloat _ \<Rightarrow> True | _ \<Rightarrow> False)"

definition is_number_or_string :: "pyval \<Rightarrow> bool" where
  "is_number_or_string v =
     (case v of PInt _ \<Rightarrow> True | PFloat _ \<Rightarrow> True | PStr _ \<Rightarrow> True | _ \<Rightarrow> False)"

definition two_bounds ::
  "(pyval \<Rightarrow> bool) \<Rightarrow> (pyval \<Rightarrow> bool) \<Rightarrow> heap \<Rightarrow> pyval option \<Rightarrow> bool" where
  "two_bounds ok_lo ok_hi s entry =
     (case entry of
        None \<Rightarrow> True
      | Some (PList a) \<Rightarrow> (case lists s a of [lo, hi] \<Rightarrow> ok_lo lo \<and> ok_hi hi | _ \<Rightarrow> False)
      | Some _ \<Rightarrow> False)"

definition only_axis_keys :: "dict \<Rightarrow> bool" where
  "only_axis_keys d = list_all (\<lambda>k. k = KStr ''x'' \<or> k = KStr ''y'') (map fst d)"

definition spec_valid_axis_range :: "heap \<Rightarrow> addr \<Rightarrow> bool" where
  "spec_valid_axis_range s a =
     (only_axis_keys (dicts s a)
      \<and> two_bounds is_number_or_string is_number_or_string s (map_of (dicts s a) (KStr ''x''))
      \<and> two_bounds is_number_or_string is_number_or_string s (map_of (dicts s a) (KStr ''y'')))"

definition schema_valid_axis_range :: "heap \<Rightarrow> addr \<Rightarrow> bool" where
  "schema_valid_axis_range s a =
     (only_axis_keys (dicts s a)
      \<and> two_bounds is_number_or_string is_number_or_string s (map_of (dicts s a) (KStr ''x''))
      \<and> two_bounds is_number is_number s (map_of (dicts s a) (KStr ''y'')))"


section \<open>The store after \<^verbatim>\<open>create_layout\<close>\<close>

text \<open>
  The store \<^verbatim>\<open>create_layout\<close> leaves behind when the instance's labels are \<open>xl\<close> and
  \<open>yl\<close>, written out: five new objects at the next five addresses (the \<^verbatim>\<open>Title\<close>, the
  dictionaries of the x axis, the y axis and the legend, and the layout). It is used
  to state and prove what \<open>create_layout\<close> computes; \<open>create_layout_result\<close> below
  proves that it is the store the function returns.
\<close>

definition axis_entry :: "dict \<Rightarrow> string \<Rightarrow> dict" where
  "axis_entry ar axis =
     (case map_of ar (KStr axis) of
        Some r \<Rightarrow> [(KStr ''range'', r)]
      | None \<Rightarrow> [(KStr ''autorange'', PBool True)])"

definition default_layout :: "chart \<Rightarrow> pyval \<Rightarrow> pyval \<Rightarrow> heap \<Rightarrow> heap" where
  "default_layout c xl yl s =
     s\<lparr>objects := (objects s)(fresh s := (''Title'', [(KStr ''text'', PStr (title c))])),
       dicts := (dicts s)
         (Suc (fresh s) := [(KStr ''automargin'', PBool True), (KStr ''title'', xl)]
                           @ axis_entry (dicts s (axis_range c)) ''x'',
          fresh s + 2 := [(KStr ''automargin'', PBool True), (KStr ''title'', yl),
                           (KStr ''zeroline'', PBool True)]
                           @ axis_entry (dicts s (axis_range c)) ''y'',
          fresh s + 3 := [(KStr ''orientation'', PStr ''h''), (KStr ''y'', PFloat (- 0.25))],
          fresh s + 4 := [(KStr ''annotations'', annotations c),
                          (KStr ''title'', PObj (fresh s)),
                          (KStr ''xaxis'', PDict (Suc (fresh s))),
                          (KStr ''yaxis'', PDict (fresh s + 2)),
                          (KStr ''legend'', PDict (fresh s + 3)),
                          (KStr ''hovermode'', PStr ''closest'')]),
       fresh := fresh s + 5\<rparr>"


section \<open>What a call may change\<close>

text \<open>
  \<open>unchanged_below n s s'\<close>: every object at an address below \<open>n\<close> is in \<open>s'\<close> what
  it is in \<open>s\<close>. With \<open>n\<close> the next free address of \<open>s\<close>, these are the objects
  that exist in \<open>s\<close>.
\<close>

definition unchanged_below :: "addr \<Rightarrow> heap \<Rightarrow> heap \<Rightarrow> bool" where
  "unchanged_below n s s' =
     (\<forall>a<n. lists s' a = lists s a \<and> dicts s' a = dicts s a \<and> objects s' a = objects s a)"



text \<open>
  The objects of the store, by kind and address, and what a value refers to. The
  content of an object is what a reader of it sees; its children are the values it
  holds (keys are strings and integers, never objects). \<open>reach s v ob\<close>: the object
  \<open>ob\<close> is \<open>v\<close> itself or is reached from it through the objects' children.
\<close>

datatype obj = ListObj addr | DictObj addr | OtherObj addr

definition obj_of :: "pyval \<Rightarrow> obj option" where
  "obj_of v =
     (case v of
        PList a \<Rightarrow> Some (ListObj a)
      | PDict a \<Rightarrow> Some (DictObj a)
      | PObj a \<Rightarrow> Some (OtherObj a)
      | _ \<Rightarrow> None)"









text \<open>
  The objects that the sub-key overrides patch in place, in the order of the patches:
  \<open>patch_targets\<close> follows the loop of \<^verbatim>\<open>apply_custom_layout\<close> and collects, for each
  \<^verbatim>\<open>layout[parent_key][sub_key] = value\<close> that succeeds, the object found at
  \<^verbatim>\<open>layout[parent_key]\<close>; a patch that raises writes nothing and ends the loop.
  \<open>patched_objects\<close> is that list for the layout that \<^verbatim>\<open>create_layout\<close> builds.
\<close>

fun patch_targets :: "obj_setitem \<Rightarrow> override list \<Rightarrow> addr \<Rightarrow> heap \<Rightarrow> obj list" where
  "patch_targets os [] layout s = []"
| "patch_targets os ((parent_key, sub_key, v) # rest) layout s =
     (case sub_key of
        Some k \<Rightarrow>
          (case dict_getitem (dicts s layout) parent_key of
             Inl e \<Rightarrow> []
           | Inr p \<Rightarrow>
               (case setitem os p k v s of
                  (Inl e, s') \<Rightarrow> []
                | (Inr _, s') \<Rightarrow>
                    (case obj_of p of Some ob \<Rightarrow> [ob] | None \<Rightarrow> []) @
                    patch_targets os rest layout s'))
      | None \<Rightarrow>
          (case setitem os (PDict layout) parent_key v s of
             (Inl e, s') \<Rightarrow> []
           | (Inr _, s') \<Rightarrow> patch_targets os rest layout s'))"

definition patched_objects :: "obj_setitem \<Rightarrow> chart \<Rightarrow> heap \<Rightarrow> obj list" where
  "patched_objects os c s =
     (case create_layout os c s of
        (Inl e, s1) \<Rightarrow> []
      | (Inr layout, s1) \<Rightarrow> patch_targets os (layout_overrides c) layout s1)"


section \<open>Concrete inputs\<close>

text \<open>
  Stores and instances used where a statement is evaluated at a concrete input. Each
  store is \<open>module_heap\<close> with the objects the comment lists added.
\<close>

text \<open>
  The instance \<^verbatim>\<open>CustomChart(title='Sales', xlabel='Date', ylabel='Units')\<close> built
  right after the module is imported, and the store after that: the \<^verbatim>\<open>labels\<close>
  dictionary is at address 2.
\<close>

definition sales_chart :: chart where
  "sales_chart =
     \<lparr>title = ''Sales'', labels = 2, layout_overrides = [],
      self_annotations = None, self_axis_range = None\<rparr>"

definition sales_heap :: heap where
  "sales_heap =
     module_heap\<lparr>dicts := (dicts module_heap)
                    (2 := [(KStr ''x'', PStr ''Date''), (KStr ''y'', PStr ''Units'')]),
                 fresh := 3\<rparr>"

text \<open>\<open>sales_heap\<close> and \<^verbatim>\<open>{'y': ['a', 'b']}\<close> at address 4.\<close>

definition heap_y_strings :: heap where
  "heap_y_strings =
     sales_heap\<lparr>lists := (lists sales_heap)(3 := [PStr ''a'', PStr ''b'']),
                dicts := (dicts sales_heap)(4 := [(KStr ''y'', PList 3)]),
                fresh := 5\<rparr>"

text \<open>\<open>sales_heap\<close> and \<^verbatim>\<open>{'x': ['2020-01-01', 10], 'y': [0, 1.5]}\<close> at address 5.\<close>

definition heap_both_axes :: heap where
  "heap_both_axes =
     sales_heap\<lparr>lists := (lists sales_heap)(3 := [PStr ''2020-01-01'', PInt 10],
                                             4 := [PInt 0, PFloat 1.5]),
                dicts := (dicts sales_heap)(5 := [(KStr ''x'', PList 3), (KStr ''y'', PList 4)]),
                fresh := 6\<rparr>"

text \<open>\<open>sales_heap\<close> and \<^verbatim>\<open>{'x': [1]}\<close> at address 4.\<close>

definition heap_one_bound :: heap where
  "heap_one_bound =
     sales_heap\<lparr>lists := (lists sales_heap)(3 := [PInt 1]),
                dicts := (dicts sales_heap)(4 := [(KStr ''x'', PList 3)]),
                fresh := 5\<rparr>"

text \<open>How the examples render a collection of errors: by their number.\<close>

definition count_errors :: "verror list \<Rightarrow> string" where
  "count_errors es = replicate (length es) (CHR ''!'')"


text \<open>\<open>sales_heap\<close> and \<^verbatim>\<open>{'x': [0, 10]}\<close> at address 4.\<close>

definition heap_x_only :: heap where
  "heap_x_only =
     sales_heap\<lparr>lists := (lists sales_heap)(3 := [PInt 0, PInt 10]),
                dicts := (dicts sales_heap)(4 := [(KStr ''x'', PList 3)]),
                fresh := 5\<rparr>"

text \<open>
  A stand-in for item assignment on objects of other classes, for the examples: it
  stores the property, whatever the class.
\<close>

definition plain_obj_setitem :: obj_setitem where
  "plain_obj_setitem cls d k v = Inr (AList.update k v d)"

text \<open>
  A subclass's \<^verbatim>\<open>create_traces\<close> for the examples: it returns a new list of three
  points and leaves the instance alone.
\<close>

definition three_points :: traces_hook where
  "three_points c df_raw kwargs_data s =
     (let (a, s1) = alloc_list [PInt 1, PInt 2, PInt 3] s in (Inr (PList a), c, s1))"

text \<open>\<open>sales_heap\<close> after \<open>three_points\<close> ran: the list of points at address 3.\<close>

definition heap_three_points :: heap where
  "heap_three_points =
     sales_heap\<lparr>lists := (lists sales_heap)(3 := [PInt 1, PInt 2, PInt 3]), fresh := 4\<rparr>"

text \<open>
  A stand-in for \<^verbatim>\<open>go.Layout\<close>, for the examples: the layout object is the list of
  the entries of the dictionary it is given.
\<close>

definition layout_entries :: "heap \<Rightarrow> addr \<Rightarrow> py_error + dict" where
  "layout_entries s a = Inr (dicts s a)"

text \<open>The sales chart with the override \<^verbatim>\<open>('margin', 't', 0)\<close>.\<close>

definition margin_chart :: chart where
  "margin_chart =
     sales_chart\<lparr>layout_overrides := [(KStr ''margin'', Some (KStr ''t''), PInt 0)]\<rparr>"

text \<open>
  A second instance built with the same arguments right after \<open>sales_chart\<close>, and the
  store after that: its \<^verbatim>\<open>labels\<close> dictionary is at address 3.
\<close>

definition second_chart :: chart where
  "second_chart = sales_chart\<lparr>labels := 3\<rparr>"

definition two_charts_heap :: heap where
  "two_charts_heap =
     sales_heap\<lparr>dicts := (dicts sales_heap)
                    (3 := [(KStr ''x'', PStr ''Date''), (KStr ''y'', PStr ''Units'')]),
                fresh := 4\<rparr>"


text \<open>
  An instance whose overrides reach objects that exist before the call: its own
  \<^verbatim>\<open>annotations\<close> list \<^verbatim>\<open>['A']\<close> (address 3), patched at index 0, and the
  dictionary \<^verbatim>\<open>{'orientation': 'v'}\<close> (address 4) that replaces the legend and is
  then patched at \<^verbatim>\<open>'y'\<close>:
  \<^verbatim>\<open>layout_overrides = [('annotations', 0, 'B'), ('legend', None, d), ('legend', 'y', 5)]\<close>.
\<close>

definition alias_chart :: chart where
  "alias_chart =
     sales_chart\<lparr>layout_overrides :=
                   [(KStr ''annotations'', Some (KInt 0), PStr ''B''),
                    (KStr ''legend'', None, PDict 4),
                    (KStr ''legend'', Some (KStr ''y''), PInt 5)],
                 self_annotations := Some (PList 3)\<rparr>"

definition alias_heap :: heap where
  "alias_heap =
     sales_heap\<lparr>lists := (lists sales_heap)(3 := [PStr ''A'']),
                dicts := (dicts sales_heap)(4 := [(KStr ''orientation'', PStr ''v'')]),
                fresh := 5\<rparr>"





text \<open>
  The sales chart with the override \<^verbatim>\<open>('annotations', 0, 'B')\<close>; its annotations are
  the empty list of the class.
\<close>

definition first_annotation_chart :: chart where
  "first_annotation_chart =
     sales_chart\<lparr>layout_overrides := [(KStr ''annotations'', Some (KInt 0), PStr ''B'')]\<rparr>"


text \<open>
  The sales chart with the overrides \<^verbatim>\<open>[('legend', None, g), ('legend', 'y', 1)]\<close>,
  where \<^verbatim>\<open>g\<close> is the caller's \<^verbatim>\<open>go.layout.Legend()\<close> at address 3, an object of the
  charting library.
\<close>

definition legend_object_chart :: chart where
  "legend_object_chart =
     sales_chart\<lparr>layout_overrides :=
                   [(KStr ''legend'', None, PObj 3),
                    (KStr ''legend'', Some (KStr ''y''), PInt 1)]\<rparr>"

definition legend_object_heap :: heap where
  "legend_object_heap =
     sales_heap\<lparr>objects := (objects sales_heap)(3 := (''Legend'', [])), fresh := 4\<rparr>"


section \<open>Assigning \<^verbatim>\<open>axis_range\<close>\<close>

text \<open>
  C3. Whenever the validation collaborator reports a non-empty collection of errors
  for the value, the setter raises the error that carries them (the code raises
  \<^verbatim>\<open>RuntimeError\<close> with the rendered errors in its message), the instance and the
  store are what they were, and the getter returns what it returned before.
\<close>

theorem axis_range_setter_rejects:
  assumes "validate_fn s new_range axis_range_schema \<noteq> []"
  shows "axis_range_setter validate_fn str_errors c new_range s =
           (Inl (RuntimeError (''Validation of self.axis_range failed: '' @
                   str_errors (validate_fn s new_range axis_range_schema))), c, s)
         \<and> axis_range (fst (snd (axis_range_setter validate_fn str_errors c new_range s)))
             = axis_range c"
  using assms by (simp add: axis_range_setter_def Let_def)


theorem axis_range_setter_rejects_witness:
  "validate heap_one_bound 4 axis_range_schema \<noteq> []
   \<and> axis_range_setter validate count_errors sales_chart 4 heap_one_bound =
       (Inl (RuntimeError ''Validation of self.axis_range failed: !''), sales_chart, heap_one_bound)
   \<and> axis_range (fst (snd (axis_range_setter validate count_errors sales_chart 4 heap_one_bound)))
       = cls_axis_range"
proof -
  have v: "validate heap_one_bound 4 axis_range_schema = [WrongLength (KStr ''x'') 2 1]"
    by (simp add: validate_def check_field_def axis_range_schema_def heap_one_bound_def
          sales_heap_def module_heap_def)
  then have ne: "validate heap_one_bound 4 axis_range_schema \<noteq> []" by simp
  from axis_range_setter_rejects [of validate heap_one_bound 4 count_errors sales_chart] ne v
  show ?thesis
    by (simp add: count_errors_def axis_range_def sales_chart_def)
qed

subsection \<open>What the schema accepts\<close>

lemma unknown_field_none:
  "filter (\<lambda>k. map_of axis_range_schema k = None) ks = [] \<longleftrightarrow>
     list_all (\<lambda>k. k = KStr ''x'' \<or> k = KStr ''y'') ks"
  by (induction ks) (auto simp: axis_range_schema_def)

lemma types_x: "(\<lambda>v. list_ex (\<lambda>t. has_type t v) [Integer, Float, String]) = is_number_or_string"
proof (rule ext)
  fix v show "list_ex (\<lambda>t. has_type t v) [Integer, Float, String] = is_number_or_string v"
    by (cases v) (simp_all add: is_number_or_string_def)
qed

lemma types_y: "(\<lambda>v. list_ex (\<lambda>t. has_type t v) [Integer, Float]) = is_number"
proof (rule ext)
  fix v show "list_ex (\<lambda>t. has_type t v) [Integer, Float] = is_number v"
    by (cases v) (simp_all add: is_number_def)
qed

lemma length_two: "length xs = 2 \<longleftrightarrow> (\<exists>lo hi. xs = [lo, hi])"
  by (cases xs; cases "tl xs"; cases "tl (tl xs)") auto

lemma check_field_two:
  "check_field s d (k, \<lparr>rule_items = [ts1, ts2], rule_required = False, rule_type = ListT\<rparr>) = []
     \<longleftrightarrow> two_bounds (\<lambda>v. list_ex (\<lambda>t. has_type t v) ts1) (\<lambda>v. list_ex (\<lambda>t. has_type t v) ts2)
           s (map_of d k)"
proof (cases "map_of d k")
  case None
  then show ?thesis by (simp add: check_field_def two_bounds_def)
next
  case (Some v)
  show ?thesis
  proof (cases v)
    case (PList a)
    show ?thesis
    proof (cases "length (lists s a) = 2")
      case True
      then obtain lo hi where "lists s a = [lo, hi]" by (auto simp: length_two)
      with Some PList show ?thesis by (simp add: check_field_def two_bounds_def)
    next
      case False
      then have "\<And>lo hi. lists s a \<noteq> [lo, hi]" by auto
      with False Some PList show ?thesis
        by (auto simp: check_field_def two_bounds_def split: list.splits)
    qed
  qed (use Some in \<open>simp_all add: check_field_def two_bounds_def\<close>)
qed

lemma validate_axis_range:
  "validate s a axis_range_schema =
     map UnknownField (filter (\<lambda>k. map_of axis_range_schema k = None) (map fst (dicts s a))) @
     check_field s (dicts s a) (KStr ''x'',
        \<lparr>rule_items = [[Integer, Float, String], [Integer, Float, String]],
         rule_required = False, rule_type = ListT\<rparr>) @
     check_field s (dicts s a) (KStr ''y'',
        \<lparr>rule_items = [[Integer, Float], [Integer, Float]],
         rule_required = False, rule_type = ListT\<rparr>)"
proof -
  have "concat (map (check_field s (dicts s a)) axis_range_schema) =
     check_field s (dicts s a) (KStr ''x'',
        \<lparr>rule_items = [[Integer, Float, String], [Integer, Float, String]],
         rule_required = False, rule_type = ListT\<rparr>) @
     check_field s (dicts s a) (KStr ''y'',
        \<lparr>rule_items = [[Integer, Float], [Integer, Float]],
         rule_required = False, rule_type = ListT\<rparr>)"
    by (simp add: axis_range_schema_def)
  then show ?thesis unfolding validate_def by simp
qed

lemma validate_empty_iff:
  "validate s a axis_range_schema = [] \<longleftrightarrow> schema_valid_axis_range s a"
  unfolding validate_axis_range schema_valid_axis_range_def only_axis_keys_def
  by (simp only: append_is_Nil_conv map_is_Nil_conv unknown_field_none check_field_two
        types_x types_y)

text \<open>
  C2, as the spec states it, fails: \<^verbatim>\<open>{'y': ['a', 'b']}\<close> has one of the two keys and
  exactly two bounds, each a string, and the setter raises, because the schema lists
  only \<^verbatim>\<open>integer\<close> and \<^verbatim>\<open>float\<close> for the bounds of \<^verbatim>\<open>"y"\<close>.
\<close>

theorem axis_range_setter_y_strings_rejected:
  "spec_valid_axis_range heap_y_strings 4
   \<and> axis_range_setter validate count_errors sales_chart 4 heap_y_strings =
       (Inl (RuntimeError ''Validation of self.axis_range failed: !!''),
        sales_chart, heap_y_strings)"
proof -
  have "spec_valid_axis_range heap_y_strings 4"
    by (simp add: spec_valid_axis_range_def only_axis_keys_def two_bounds_def
          is_number_or_string_def heap_y_strings_def sales_heap_def module_heap_def)
  moreover have "validate heap_y_strings 4 axis_range_schema =
      [BadItemType (KStr ''y'') 0, BadItemType (KStr ''y'') 1]"
    by (simp add: validate_def check_field_def axis_range_schema_def heap_y_strings_def
          sales_heap_def module_heap_def)
  ultimately show ?thesis
    by (simp add: axis_range_setter_def count_errors_def)
qed

text \<open>
  C2, amended. For every document with no key other than \<^verbatim>\<open>"x"\<close> and \<^verbatim>\<open>"y"\<close>, where
  \<^verbatim>\<open>"x"\<close>, if present, is a list of exactly two bounds that are integers, floats or
  strings, and \<^verbatim>\<open>"y"\<close>, if present, is a list of exactly two bounds that are integers
  or floats, the setter raises nothing and changes no object, and the getter then
  returns the assigned dictionary, whose contents are what was assigned.
\<close>

theorem axis_range_setter_accepts:
  assumes "schema_valid_axis_range s new_range"
  shows "\<exists>c'. axis_range_setter validate str_errors c new_range s = (Inr (), c', s)
              \<and> axis_range c' = new_range
              \<and> view s (PDict (axis_range c')) = view s (PDict new_range)"
  using assms by (simp add: axis_range_setter_def validate_empty_iff axis_range_def)

theorem axis_range_setter_accepts_witness:
  "schema_valid_axis_range heap_both_axes 5
   \<and> (\<exists>c'. axis_range_setter validate count_errors sales_chart 5 heap_both_axes =
              (Inr (), c', heap_both_axes)
            \<and> axis_range c' = 5
            \<and> view heap_both_axes (PDict (axis_range c')) = view heap_both_axes (PDict 5))"
proof -
  have ok: "schema_valid_axis_range heap_both_axes 5"
    by (simp add: schema_valid_axis_range_def only_axis_keys_def two_bounds_def
          is_number_or_string_def is_number_def heap_both_axes_def sales_heap_def module_heap_def)
  from axis_range_setter_accepts [of heap_both_axes 5 count_errors sales_chart] ok
  show ?thesis
    by simp
qed

text \<open>The setter accepts exactly these documents.\<close>

lemma axis_range_setter_accepts_iff:
  "fst (axis_range_setter validate str_errors c new_range s) = Inr ()
     \<longleftrightarrow> schema_valid_axis_range s new_range"
  by (simp add: axis_range_setter_def validate_empty_iff)


section \<open>The abstract trace hook\<close>

text \<open>
  C6. \<^verbatim>\<open>create_traces\<close> of the base class raises \<^verbatim>\<open>NotImplementedError\<close> for every
  raw data argument and every keyword arguments, and changes nothing.
\<close>

theorem create_traces_not_implemented:
  "create_traces c df_raw kwargs_data s =
     (Inl (NotImplementedError ''create_traces must be implemented by child class''), c, s)"
  by (simp add: create_traces_def)

section \<open>The standard layout\<close>

lemma create_layout_result:
  assumes "labels c < fresh s" "axis_range c < fresh s"
    and "map_of (dicts s (labels c)) (KStr ''x'') = Some xl"
    and "map_of (dicts s (labels c)) (KStr ''y'') = Some yl"
  shows "create_layout os c s = (Inr (fresh s + 4), default_layout c xl yl s)"
  using assms
  apply (simp add: create_layout_def alloc_obj_def alloc_dict_def dict_getitem_def Let_def
       setitem2_def setitem_def dict_contains_def axis_entry_def default_layout_def split: option.splits)
  apply (auto simp: fun_eq_iff eval_nat_numeral)
  done

lemma default_layout_dicts:
  "dicts (default_layout c xl yl s) (fresh s + 4) =
     [(KStr ''annotations'', annotations c), (KStr ''title'', PObj (fresh s)),
      (KStr ''xaxis'', PDict (Suc (fresh s))), (KStr ''yaxis'', PDict (fresh s + 2)),
      (KStr ''legend'', PDict (fresh s + 3)), (KStr ''hovermode'', PStr ''closest'')]"
  "dicts (default_layout c xl yl s) (fresh s + 3) =
     [(KStr ''orientation'', PStr ''h''), (KStr ''y'', PFloat (- 0.25))]"
  "dicts (default_layout c xl yl s) (fresh s + 2) =
     [(KStr ''automargin'', PBool True), (KStr ''title'', yl), (KStr ''zeroline'', PBool True)]
       @ axis_entry (dicts s (axis_range c)) ''y''"
  "dicts (default_layout c xl yl s) (Suc (fresh s)) =
     [(KStr ''automargin'', PBool True), (KStr ''title'', xl)]
       @ axis_entry (dicts s (axis_range c)) ''x''"
  "a < fresh s \<Longrightarrow> dicts (default_layout c xl yl s) a = dicts s a"
  "objects (default_layout c xl yl s) (fresh s) = (''Title'', [(KStr ''text'', PStr (title c))])"
  "a < fresh s \<Longrightarrow> objects (default_layout c xl yl s) a = objects s a"
  "lists (default_layout c xl yl s) = lists s"
  "fresh (default_layout c xl yl s) = fresh s + 5"
  by (simp_all add: default_layout_def)

lemma axis_entry_range:
  "map_of (axis_entry ar axis) (KStr ''range'') = map_of ar (KStr axis)"
  by (simp add: axis_entry_def split: option.splits)

lemma axis_entry_autorange:
  "map_of (axis_entry ar axis) (KStr ''autorange'') =
     (if dict_contains ar (KStr axis) then None else Some (PBool True))"
  by (auto simp: axis_entry_def dict_contains_def split: option.splits)

text \<open>
  C4. For an instance whose labels and \<^verbatim>\<open>axis_range\<close> dictionaries exist in the
  store, \<^verbatim>\<open>create_layout\<close> returns a layout in which \<^verbatim>\<open>xaxis\<close> has
  \<^verbatim>\<open>autorange = True\<close> and no \<^verbatim>\<open>range\<close> key when \<^verbatim>\<open>"x"\<close> is absent from
  \<^verbatim>\<open>axis_range\<close>, and \<^verbatim>\<open>range = axis_range["x"]\<close> and no \<^verbatim>\<open>autorange\<close> key when it
  is present; the same for \<^verbatim>\<open>yaxis\<close> and \<^verbatim>\<open>"y"\<close>; and \<^verbatim>\<open>yaxis\<close> has
  \<^verbatim>\<open>zeroline = True\<close> in every case. (The lookup of \<^verbatim>\<open>range\<close> in the axis equals the
  lookup of the axis name in \<^verbatim>\<open>axis_range\<close>: both absent, or both the same value.)
\<close>

theorem create_layout_axis_ranges:
  assumes "labels c < fresh s" "axis_range c < fresh s"
    and "map_of (dicts s (labels c)) (KStr ''x'') = Some xl"
    and "map_of (dicts s (labels c)) (KStr ''y'') = Some yl"
  shows "\<exists>layout s' xaxis yaxis.
      create_layout os c s = (Inr layout, s')
    \<and> dicts s' (axis_range c) = dicts s (axis_range c)
    \<and> map_of (dicts s' layout) (KStr ''xaxis'') = Some (PDict xaxis)
    \<and> map_of (dicts s' layout) (KStr ''yaxis'') = Some (PDict yaxis)
    \<and> map_of (dicts s' xaxis) (KStr ''range'') = map_of (dicts s (axis_range c)) (KStr ''x'')
    \<and> map_of (dicts s' xaxis) (KStr ''autorange'') =
        (if dict_contains (dicts s (axis_range c)) (KStr ''x'') then None else Some (PBool True))
    \<and> map_of (dicts s' yaxis) (KStr ''range'') = map_of (dicts s (axis_range c)) (KStr ''y'')
    \<and> map_of (dicts s' yaxis) (KStr ''autorange'') =
        (if dict_contains (dicts s (axis_range c)) (KStr ''y'') then None else Some (PBool True))
    \<and> map_of (dicts s' yaxis) (KStr ''zeroline'') = Some (PBool True)"
proof -
  let ?s' = "default_layout c xl yl s"
  have "create_layout os c s = (Inr (fresh s + 4), ?s')"
    using assms by (rule create_layout_result)
  moreover have "dicts ?s' (axis_range c) = dicts s (axis_range c)"
    using assms(2) by (simp add: default_layout_dicts)
  moreover have "map_of (dicts ?s' (fresh s + 4)) (KStr ''xaxis'') = Some (PDict (Suc (fresh s)))"
    "map_of (dicts ?s' (fresh s + 4)) (KStr ''yaxis'') = Some (PDict (fresh s + 2))"
    by (simp_all add: default_layout_dicts)
  moreover have "map_of (dicts ?s' (Suc (fresh s))) (KStr ''range'') = map_of (dicts s (axis_range c)) (KStr ''x'')"
    "map_of (dicts ?s' (Suc (fresh s))) (KStr ''autorange'') =
        (if dict_contains (dicts s (axis_range c)) (KStr ''x'') then None else Some (PBool True))"
    by (simp_all add: default_layout_dicts axis_entry_range axis_entry_autorange del: add_2_eq_Suc')
  moreover have "map_of (dicts ?s' (fresh s + 2)) (KStr ''range'') = map_of (dicts s (axis_range c)) (KStr ''y'')"
    "map_of (dicts ?s' (fresh s + 2)) (KStr ''autorange'') =
        (if dict_contains (dicts s (axis_range c)) (KStr ''y'') then None else Some (PBool True))"
    "map_of (dicts ?s' (fresh s + 2)) (KStr ''zeroline'') = Some (PBool True)"
    by (simp_all add: default_layout_dicts axis_entry_range axis_entry_autorange del: add_2_eq_Suc')
  ultimately show ?thesis by blast
qed

text \<open>
  C9. For such an instance, the layout \<^verbatim>\<open>create_layout\<close> returns has \<^verbatim>\<open>legend\<close>
  equal to \<^verbatim>\<open>{'orientation': 'h', 'y': -0.25}\<close>, \<^verbatim>\<open>hovermode\<close> equal to
  \<^verbatim>\<open>'closest'\<close>, \<^verbatim>\<open>title\<close> a \<^verbatim>\<open>Title\<close> object whose text is the instance's
  title, and an \<^verbatim>\<open>xaxis\<close> with \<^verbatim>\<open>automargin = True\<close> and \<^verbatim>\<open>title\<close> equal to
  \<^verbatim>\<open>labels['x']\<close>.
\<close>

theorem create_layout_defaults:
  assumes "labels c < fresh s" "axis_range c < fresh s"
    and "map_of (dicts s (labels c)) (KStr ''x'') = Some xl"
    and "map_of (dicts s (labels c)) (KStr ''y'') = Some yl"
  shows "\<exists>layout s' legend t xaxis.
      create_layout os c s = (Inr layout, s')
    \<and> map_of (dicts s' layout) (KStr ''legend'') = Some (PDict legend)
    \<and> dicts s' legend = [(KStr ''orientation'', PStr ''h''), (KStr ''y'', PFloat (- 0.25))]
    \<and> map_of (dicts s' layout) (KStr ''hovermode'') = Some (PStr ''closest'')
    \<and> map_of (dicts s' layout) (KStr ''title'') = Some (PObj t)
    \<and> objects s' t = (''Title'', [(KStr ''text'', PStr (title c))])
    \<and> map_of (dicts s' layout) (KStr ''xaxis'') = Some (PDict xaxis)
    \<and> map_of (dicts s' xaxis) (KStr ''automargin'') = Some (PBool True)
    \<and> map_of (dicts s' xaxis) (KStr ''title'') = Some xl"
proof -
  let ?s' = "default_layout c xl yl s"
  have "create_layout os c s = (Inr (fresh s + 4), ?s')"
    using assms by (rule create_layout_result)
  moreover have "map_of (dicts ?s' (fresh s + 4)) (KStr ''legend'') = Some (PDict (fresh s + 3))"
    "map_of (dicts ?s' (fresh s + 4)) (KStr ''hovermode'') = Some (PStr ''closest'')"
    "map_of (dicts ?s' (fresh s + 4)) (KStr ''title'') = Some (PObj (fresh s))"
    "map_of (dicts ?s' (fresh s + 4)) (KStr ''xaxis'') = Some (PDict (Suc (fresh s)))"
    by (simp_all add: default_layout_dicts)
  moreover have "dicts ?s' (fresh s + 3) = [(KStr ''orientation'', PStr ''h''), (KStr ''y'', PFloat (- 0.25))]"
    "objects ?s' (fresh s) = (''Title'', [(KStr ''text'', PStr (title c))])"
    by (simp_all add: default_layout_dicts)
  moreover have "map_of (dicts ?s' (Suc (fresh s))) (KStr ''automargin'') = Some (PBool True)"
    "map_of (dicts ?s' (Suc (fresh s))) (KStr ''title'') = Some xl"
    by (simp_all add: default_layout_dicts)
  ultimately show ?thesis by blast
qed


lemma sales_labels:
  "map_of (dicts sales_heap 2) (KStr ''x'') = Some (PStr ''Date'')"
  "map_of (dicts sales_heap 2) (KStr ''y'') = Some (PStr ''Units'')"
  by (simp_all add: sales_heap_def)

text \<open>
  The instance with \<^verbatim>\<open>axis_range = {'x': [0, 10]}\<close>: the x axis gets the range, the
  y axis \<^verbatim>\<open>autorange\<close>.
\<close>

theorem create_layout_axis_ranges_witness:
  "(\<exists>layout s' xaxis yaxis.
      create_layout plain_obj_setitem (sales_chart\<lparr>self_axis_range := Some 4\<rparr>) heap_x_only
        = (Inr layout, s')
    \<and> dicts s' 4 = [(KStr ''x'', PList 3)]
    \<and> map_of (dicts s' layout) (KStr ''xaxis'') = Some (PDict xaxis)
    \<and> map_of (dicts s' layout) (KStr ''yaxis'') = Some (PDict yaxis)
    \<and> map_of (dicts s' xaxis) (KStr ''range'') = Some (PList 3)
    \<and> map_of (dicts s' xaxis) (KStr ''autorange'') = None
    \<and> map_of (dicts s' yaxis) (KStr ''range'') = None
    \<and> map_of (dicts s' yaxis) (KStr ''autorange'') = Some (PBool True)
    \<and> map_of (dicts s' yaxis) (KStr ''zeroline'') = Some (PBool True))"
  using create_layout_axis_ranges [of "sales_chart\<lparr>self_axis_range := Some 4\<rparr>" heap_x_only
      "PStr ''Date''" "PStr ''Units''" plain_obj_setitem]
  by (simp add: sales_chart_def heap_x_only_def sales_heap_def module_heap_def axis_range_def
        dict_contains_def)

theorem create_layout_defaults_witness:
  "(\<exists>layout s' legend t xaxis.
      create_layout plain_obj_setitem sales_chart sales_heap = (Inr layout, s')
    \<and> map_of (dicts s' layout) (KStr ''legend'') = Some (PDict legend)
    \<and> dicts s' legend = [(KStr ''orientation'', PStr ''h''), (KStr ''y'', PFloat (- 0.25))]
    \<and> map_of (dicts s' layout) (KStr ''hovermode'') = Some (PStr ''closest'')
    \<and> map_of (dicts s' layout) (KStr ''title'') = Some (PObj t)
    \<and> objects s' t = (''Title'', [(KStr ''text'', PStr ''Sales'')])
    \<and> map_of (dicts s' layout) (KStr ''xaxis'') = Some (PDict xaxis)
    \<and> map_of (dicts s' xaxis) (KStr ''automargin'') = Some (PBool True)
    \<and> map_of (dicts s' xaxis) (KStr ''title'') = Some (PStr ''Date''))"
  using create_layout_defaults [of sales_chart sales_heap "PStr ''Date''" "PStr ''Units''"
      plain_obj_setitem]
  by (simp add: sales_chart_def sales_heap_def module_heap_def axis_range_def cls_axis_range_def)

section \<open>Layout overrides\<close>

text \<open>
  C8. With the single override \<^verbatim>\<open>('legend', 'y', -0.1)\<close>, \<^verbatim>\<open>apply_custom_layout\<close>
  on the layout \<^verbatim>\<open>create_layout\<close> returns gives the same layout object, in which
  the legend is \<^verbatim>\<open>{'orientation': 'h', 'y': -0.1}\<close>; the legend's dictionary is the
  only object of the store that differs from before, so every other entry of the
  layout is what it was.
\<close>

theorem legend_override:
  assumes "labels c < fresh s" "axis_range c < fresh s"
    and "map_of (dicts s (labels c)) (KStr ''x'') = Some xl"
    and "map_of (dicts s (labels c)) (KStr ''y'') = Some yl"
    and "layout_overrides c = [(KStr ''legend'', Some (KStr ''y''), PFloat (- 0.1))]"
  shows "\<exists>layout s1 s2 legend.
      create_layout os c s = (Inr layout, s1)
    \<and> apply_custom_layout os c layout s1 = (Inr layout, s2)
    \<and> map_of (dicts s2 layout) (KStr ''legend'') = Some (PDict legend)
    \<and> dicts s1 legend = [(KStr ''orientation'', PStr ''h''), (KStr ''y'', PFloat (- 0.25))]
    \<and> dicts s2 legend = [(KStr ''orientation'', PStr ''h''), (KStr ''y'', PFloat (- 0.1))]
    \<and> s2 = s1\<lparr>dicts := (dicts s1)
                (legend := [(KStr ''orientation'', PStr ''h''), (KStr ''y'', PFloat (- 0.1))])\<rparr>"
proof -
  let ?s1 = "default_layout c xl yl s"
  let ?new = "[(KStr ''orientation'', PStr ''h''), (KStr ''y'', PFloat (- 0.1))]"
  let ?s2 = "?s1\<lparr>dicts := (dicts ?s1)(fresh s + 3 := ?new)\<rparr>"
  have 1: "create_layout os c s = (Inr (fresh s + 4), ?s1)"
    using assms(1-4) by (rule create_layout_result)
  have 2: "apply_custom_layout os c (fresh s + 4) ?s1 = (Inr (fresh s + 4), ?s2)"
    by (simp add: apply_custom_layout_def assms(5) setitem2_def dict_getitem_def setitem_def
          default_layout_dicts)
  have 3: "map_of (dicts ?s2 (fresh s + 4)) (KStr ''legend'') = Some (PDict (fresh s + 3))"
    by (simp add: default_layout_dicts)
  have 4: "dicts ?s1 (fresh s + 3) = [(KStr ''orientation'', PStr ''h''), (KStr ''y'', PFloat (- 0.25))]"
    by (simp add: default_layout_dicts)
  have 5: "dicts ?s2 (fresh s + 3) = ?new" by simp
  from 1 2 3 4 5 show ?thesis by blast
qed

theorem legend_override_witness:
  "(\<exists>layout s1 s2 legend.
      create_layout plain_obj_setitem
        (sales_chart\<lparr>layout_overrides := [(KStr ''legend'', Some (KStr ''y''), PFloat (- 0.1))]\<rparr>)
        sales_heap = (Inr layout, s1)
    \<and> apply_custom_layout plain_obj_setitem
        (sales_chart\<lparr>layout_overrides := [(KStr ''legend'', Some (KStr ''y''), PFloat (- 0.1))]\<rparr>)
        layout s1 = (Inr layout, s2)
    \<and> map_of (dicts s2 layout) (KStr ''legend'') = Some (PDict legend)
    \<and> dicts s1 legend = [(KStr ''orientation'', PStr ''h''), (KStr ''y'', PFloat (- 0.25))]
    \<and> dicts s2 legend = [(KStr ''orientation'', PStr ''h''), (KStr ''y'', PFloat (- 0.1))]
    \<and> s2 = s1\<lparr>dicts := (dicts s1)
                (legend := [(KStr ''orientation'', PStr ''h''), (KStr ''y'', PFloat (- 0.1))])\<rparr>)"
  using legend_override [of
      "sales_chart\<lparr>layout_overrides := [(KStr ''legend'', Some (KStr ''y''), PFloat (- 0.1))]\<rparr>"
      sales_heap "PStr ''Date''" "PStr ''Units''" plain_obj_setitem]
  by (simp add: sales_chart_def sales_heap_def module_heap_def axis_range_def cls_axis_range_def)

section \<open>Errors of the overrides, and the figure\<close>

lemma apply_overrides_append:
  "apply_overrides os (xs @ ys) layout s =
     (case apply_overrides os xs layout s of
        (Inl e, s') \<Rightarrow> (Inl e, s')
      | (Inr u, s') \<Rightarrow> apply_overrides os ys layout s')"
  by (induction xs arbitrary: s) (auto simp: setitem_def split: option.splits prod.splits sum.splits)

text \<open>
  C7. Whatever the layout and the override triple with a sub-key: if, when the
  triple's turn comes (the triples before it having been applied without error), its
  parent key is not a key of the layout, \<^verbatim>\<open>apply_custom_layout\<close> raises
  \<^verbatim>\<open>KeyError\<close> for that key; and a \<^verbatim>\<open>create_figure\<close> call in which this happens
  (its \<^verbatim>\<open>create_traces\<close> having returned, its layout being the one
  \<^verbatim>\<open>create_layout\<close> built) raises the same error.
\<close>

theorem missing_parent_key:
  assumes "layout_overrides c = before @ (parent_key, Some sub_key, v) # rest"
    and "apply_overrides os before layout s = (Inr (), s1)"
    and "\<not> dict_contains (dicts s1 layout) parent_key"
  shows "apply_custom_layout os c layout s = (Inl (KeyError parent_key), s1)
    \<and> (\<forall>go_Layout traces c0 df_raw kwargs_data s0 tr s00.
         traces c0 df_raw kwargs_data s0 = (Inr tr, c, s00)
         \<and> create_layout os c s00 = (Inr layout, s)
         \<longrightarrow> create_figure os go_Layout traces c0 df_raw kwargs_data s0
               = (Inl (KeyError parent_key), c, s1))"
proof -
  have "apply_overrides os ((parent_key, Some sub_key, v) # rest) layout s1
          = (Inl (KeyError parent_key), s1)"
    using assms(3) by (simp add: setitem2_def dict_getitem_def dict_contains_def)
  then have *: "apply_custom_layout os c layout s = (Inl (KeyError parent_key), s1)"
    by (simp add: apply_custom_layout_def assms(1,2) apply_overrides_append)
  then show ?thesis
    by (simp add: create_figure_def)
qed


lemma three_points_sales:
  "three_points c df_raw kwargs_data sales_heap = (Inr (PList 3), c, heap_three_points)"
  by (simp add: three_points_def alloc_list_def heap_three_points_def sales_heap_def)

lemma heap_three_points_simps:
  "fresh heap_three_points = 4"
  "dicts heap_three_points 2 = [(KStr ''x'', PStr ''Date''), (KStr ''y'', PStr ''Units'')]"
  "dicts heap_three_points 1 = []"
  "lists heap_three_points 3 = [PInt 1, PInt 2, PInt 3]"
  by (simp_all add: heap_three_points_def sales_heap_def module_heap_def)

lemma create_layout_three_points:
  assumes "labels c = 2" "self_axis_range c = None"
  shows "create_layout os c heap_three_points =
     (Inr 8, default_layout c (PStr ''Date'') (PStr ''Units'') heap_three_points)"
  using create_layout_result [of c heap_three_points "PStr ''Date''" "PStr ''Units''" os] assms
  by (simp add: heap_three_points_simps axis_range_def cls_axis_range_def)

text \<open>
  The sales chart with the override \<^verbatim>\<open>('margin', 't', 0)\<close>: the standard layout has
  no \<^verbatim>\<open>margin\<close>.
\<close>

theorem missing_parent_key_witness:
  "apply_custom_layout plain_obj_setitem margin_chart 8
       (default_layout margin_chart (PStr ''Date'') (PStr ''Units'') heap_three_points)
     = (Inl (KeyError (KStr ''margin'')),
        default_layout margin_chart (PStr ''Date'') (PStr ''Units'') heap_three_points)
   \<and> create_figure plain_obj_setitem layout_entries three_points margin_chart PNone []
       sales_heap
     = (Inl (KeyError (KStr ''margin'')), margin_chart,
        default_layout margin_chart (PStr ''Date'') (PStr ''Units'') heap_three_points)"
proof -
  let ?s = "default_layout margin_chart (PStr ''Date'') (PStr ''Units'') heap_three_points"
  have h1: "layout_overrides margin_chart = [] @ (KStr ''margin'', Some (KStr ''t''), PInt 0) # []"
    by (simp add: margin_chart_def)
  have h2: "apply_overrides plain_obj_setitem [] 8 ?s = (Inr (), ?s)" by simp
  have "dicts ?s (fresh heap_three_points + 4) =
     [(KStr ''annotations'', annotations margin_chart), (KStr ''title'', PObj (fresh heap_three_points)),
      (KStr ''xaxis'', PDict (Suc (fresh heap_three_points))), (KStr ''yaxis'', PDict (fresh heap_three_points + 2)),
      (KStr ''legend'', PDict (fresh heap_three_points + 3)), (KStr ''hovermode'', PStr ''closest'')]"
    by (rule default_layout_dicts)
  then have h3: "\<not> dict_contains (dicts ?s 8) (KStr ''margin'')"
    by (simp add: heap_three_points_simps dict_contains_def)
  have cl: "create_layout plain_obj_setitem margin_chart heap_three_points = (Inr 8, ?s)"
    by (rule create_layout_three_points) (simp_all add: margin_chart_def sales_chart_def)
  from missing_parent_key [OF h1 h2 h3] three_points_sales cl show ?thesis
    by blast
qed

text \<open>
  C5. With \<^verbatim>\<open>create_traces\<close> overridden by \<open>traces\<close>: when it returns \<open>tr\<close>,
  \<^verbatim>\<open>create_figure\<close> returns a figure whose \<^verbatim>\<open>data\<close> is \<open>tr\<close> and whose
  \<^verbatim>\<open>layout\<close> is the object \<^verbatim>\<open>go.Layout\<close> builds from
  \<^verbatim>\<open>apply_custom_layout(create_layout())\<close>, both computed on the instance and the
  store as \<open>traces\<close> left them.
\<close>

theorem create_figure_fields:
  assumes "traces c df_raw kwargs_data s = (Inr tr, c1, s1)"
    and "create_layout os c1 s1 = (Inr layout, s2)"
    and "apply_custom_layout os c1 layout s2 = (Inr patched, s3)"
    and "go_Layout s3 patched = Inr l"
  shows "\<exists>fig. create_figure os go_Layout traces c df_raw kwargs_data s = (Inr fig, c1, s3)
             \<and> fig_data fig = tr \<and> fig_layout fig = l"
  using assms by (simp add: create_figure_def)

text \<open>Conversely, a figure that \<^verbatim>\<open>create_figure\<close> returns was built in this way.\<close>

lemma create_figure_returned:
  assumes "create_figure os go_Layout traces c df_raw kwargs_data s = (Inr fig, c', s')"
  shows "\<exists>s1 layout s2 patched.
           traces c df_raw kwargs_data s = (Inr (fig_data fig), c', s1)
         \<and> create_layout os c' s1 = (Inr layout, s2)
         \<and> apply_custom_layout os c' layout s2 = (Inr patched, s')
         \<and> go_Layout s' patched = Inr (fig_layout fig)"
  using assms
  by (auto simp: create_figure_def split: prod.splits sum.splits)

lemma apply_custom_layout_no_overrides:
  "layout_overrides c = [] \<Longrightarrow> apply_custom_layout os c layout s = (Inr layout, s)"
  by (simp add: apply_custom_layout_def)

text \<open>
  The spec's end-to-end example: title \<^verbatim>\<open>Sales\<close>, labels \<^verbatim>\<open>Date\<close> and
  \<^verbatim>\<open>Units\<close>, no overrides, no axis range, a subclass returning three points.
\<close>

theorem create_figure_fields_witness:
  "(\<exists>fig. create_figure plain_obj_setitem layout_entries three_points sales_chart PNone []
            sales_heap
          = (Inr fig, sales_chart,
             default_layout sales_chart (PStr ''Date'') (PStr ''Units'') heap_three_points)
        \<and> fig_data fig = PList 3
        \<and> fig_layout fig =
            [(KStr ''annotations'', PList 0), (KStr ''title'', PObj 4),
             (KStr ''xaxis'', PDict 5), (KStr ''yaxis'', PDict 6),
             (KStr ''legend'', PDict 7), (KStr ''hovermode'', PStr ''closest'')])"
proof -
  let ?s = "default_layout sales_chart (PStr ''Date'') (PStr ''Units'') heap_three_points"
  have cl: "create_layout plain_obj_setitem sales_chart heap_three_points = (Inr 8, ?s)"
    by (rule create_layout_three_points) (simp_all add: sales_chart_def)
  have ap: "apply_custom_layout plain_obj_setitem sales_chart 8 ?s = (Inr 8, ?s)"
    by (rule apply_custom_layout_no_overrides) (simp add: sales_chart_def)
  have "dicts ?s (fresh heap_three_points + 4) =
     [(KStr ''annotations'', annotations sales_chart), (KStr ''title'', PObj (fresh heap_three_points)),
      (KStr ''xaxis'', PDict (Suc (fresh heap_three_points))), (KStr ''yaxis'', PDict (fresh heap_three_points + 2)),
      (KStr ''legend'', PDict (fresh heap_three_points + 3)), (KStr ''hovermode'', PStr ''closest'')]"
    by (rule default_layout_dicts)
  then have go: "layout_entries ?s 8 =
      Inr [(KStr ''annotations'', PList 0), (KStr ''title'', PObj 4),
             (KStr ''xaxis'', PDict 5), (KStr ''yaxis'', PDict 6),
             (KStr ''legend'', PDict 7), (KStr ''hovermode'', PStr ''closest'')]"
    by (simp add: layout_entries_def heap_three_points_simps annotations_def sales_chart_def
          cls_annotations_def)
  from create_figure_fields [where traces = three_points and c = sales_chart and df_raw = PNone
      and kwargs_data = "[]" and s = sales_heap and go_Layout = layout_entries,
      OF three_points_sales cl ap go]
  show ?thesis .
qed

section \<open>Annotations of two instances\<close>

lemma init_sales:
  "init initialize_mutables ''Sales'' ''Date'' ''Units'' [] module_heap = (sales_chart, sales_heap)"
  by (simp add: init_def initialize_mutables_def alloc_dict_def sales_chart_def sales_heap_def
        module_heap_def)

lemma init_second:
  "init initialize_mutables ''Sales'' ''Date'' ''Units'' [] sales_heap
     = (second_chart, two_charts_heap)"
  by (simp add: init_def initialize_mutables_def alloc_dict_def sales_chart_def sales_heap_def
        module_heap_def second_chart_def two_charts_heap_def)

text \<open>
  C1 does not hold of the code. Two instances are built one after the other with the
  same arguments; neither binds \<^verbatim>\<open>annotations\<close> (\<^verbatim>\<open>initialize_mutables\<close> is
  \<^verbatim>\<open>pass\<close>), so both read the class attribute, one list. The second instance sees
  no annotation; after \<^verbatim>\<open>first.annotations.append('note')\<close> it sees \<^verbatim>\<open>['note']\<close>.
\<close>

theorem annotations_shared:
  "init initialize_mutables ''Sales'' ''Date'' ''Units'' [] module_heap = (sales_chart, sales_heap)
   \<and> init initialize_mutables ''Sales'' ''Date'' ''Units'' [] sales_heap
       = (second_chart, two_charts_heap)
   \<and> view two_charts_heap (annotations second_chart) = ListOf []
   \<and> fst (append_item (annotations sales_chart) (PStr ''note'') two_charts_heap) = Inr ()
   \<and> view (snd (append_item (annotations sales_chart) (PStr ''note'') two_charts_heap))
        (annotations second_chart) = ListOf [PStr ''note'']"
proof -
  have "view two_charts_heap (annotations second_chart) = ListOf []"
    by (simp add: view_def annotations_def cls_annotations_def second_chart_def
          sales_chart_def two_charts_heap_def sales_heap_def module_heap_def)
  moreover have "fst (append_item (annotations sales_chart) (PStr ''note'') two_charts_heap) = Inr ()"
    by (simp add: append_item_def annotations_def cls_annotations_def sales_chart_def)
  moreover have "view (snd (append_item (annotations sales_chart) (PStr ''note'') two_charts_heap))
        (annotations second_chart) = ListOf [PStr ''note'']"
    by (simp add: view_def append_item_def annotations_def cls_annotations_def second_chart_def
          sales_chart_def two_charts_heap_def sales_heap_def module_heap_def)
  ultimately show ?thesis
    using init_sales init_second by simp
qed

text \<open>
  What \<^verbatim>\<open>__init__\<close> establishes, in any store: the new instance's labels are a new
  dictionary holding the two labels, and the instance binds neither \<^verbatim>\<open>annotations\<close>
  nor \<^verbatim>\<open>_axis_range\<close>.
\<close>

lemma init_establishes:
  assumes "init initialize_mutables t xl yl ovs s = (c, s')"
  shows "labels c = fresh s \<and> labels c < fresh s'
       \<and> dicts s' (labels c) = [(KStr ''x'', PStr xl), (KStr ''y'', PStr yl)]
       \<and> title c = t \<and> layout_overrides c = ovs
       \<and> self_annotations c = None \<and> self_axis_range c = None
       \<and> unchanged_below (fresh s) s s'"
  using assms
  by (auto simp: init_def initialize_mutables_def alloc_dict_def unchanged_below_def)

lemma init_annotations:
  "annotations (fst (init initialize_mutables t xl yl ovs s)) = cls_annotations"
  by (simp add: init_def initialize_mutables_def alloc_dict_def annotations_def)


section \<open>What \<^verbatim>\<open>create_figure\<close> leaves unchanged\<close>

lemma unchanged_below_refl: "unchanged_below n s s"
  by (simp add: unchanged_below_def)






lemma unchanged_below_trans:
  "unchanged_below n s s1 \<Longrightarrow> unchanged_below n s1 s2 \<Longrightarrow> unchanged_below n s s2"
  by (simp add: unchanged_below_def)

lemma unchanged_below_mono:
  "unchanged_below n s s' \<Longrightarrow> m \<le> n \<Longrightarrow> unchanged_below m s s'"
  by (simp add: unchanged_below_def)





lemma unchanged_below_after:
  assumes "unchanged_below (fresh s) s s0" and "fresh s \<le> fresh s0"
    and "unchanged_below (fresh s0) s0 s1"
  shows "unchanged_below (fresh s) s s1"
proof -
  from assms(3,2) have "unchanged_below (fresh s) s0 s1" by (rule unchanged_below_mono)
  with assms(1) show ?thesis by (rule unchanged_below_trans)
qed









subsection \<open>The objects of an instance\<close>



subsection \<open>The call at concrete inputs\<close>

lemmas example_defs = alias_chart_def alias_heap_def sales_chart_def sales_heap_def module_heap_def
  three_points_def alloc_list_def plain_obj_setitem_def layout_entries_def

lemmas run_defs = create_figure_def create_layout_def apply_custom_layout_def alloc_obj_def
  alloc_dict_def dict_getitem_def dict_contains_def setitem2_def setitem_def list_setitem_def
  annotations_def axis_range_def cls_axis_range_def cls_annotations_def Let_def





lemma alias_patched:
  "patched_objects plain_obj_setitem alias_chart
     (alias_heap\<lparr>lists := (lists alias_heap)(5 := [PInt 1, PInt 2, PInt 3]), fresh := 6\<rparr>)
   = [ListObj 3, DictObj 4]"
  by (simp add: patched_objects_def obj_of_def example_defs run_defs)

lemma index_error_patches_nothing:
  "patched_objects plain_obj_setitem first_annotation_chart sales_heap = []"
  by (simp add: patched_objects_def obj_of_def first_annotation_chart_def example_defs run_defs)

text \<open>
  An object of any class that accepts the assignment is patched like a dictionary: the
  caller's \<^verbatim>\<open>Legend\<close> object, put into the layout wholesale, is the target of the
  patch that follows.
\<close>

lemma library_object_patched:
  "patched_objects plain_obj_setitem legend_object_chart legend_object_heap = [OtherObj 3]"
  by (simp add: patched_objects_def obj_of_def legend_object_chart_def legend_object_heap_def
        example_defs run_defs)




end
